theory Spec2Isabelle
  imports Complex_Main
begin

section \<open>Floating-point values\<close>

text \<open>
  The engine computes on Python and numpy floats. A value is modelled as a finite real,
  an infinity or NaN. Arithmetic on finite values is exact (rounding is not modelled) and
  zero carries no sign; everything else follows IEEE 754 as numpy applies it: a division
  by zero gives an infinity or NaN instead of raising, an undefined combination gives
  NaN, and every ordered comparison with NaN is false.
\<close>

datatype fl = Fin real | PInf | NInf | NaN

fun fneg :: "fl \<Rightarrow> fl" where
  "fneg (Fin a) = Fin (- a)"
| "fneg PInf = NInf"
| "fneg NInf = PInf"
| "fneg NaN = NaN"

fun fadd :: "fl \<Rightarrow> fl \<Rightarrow> fl" where
  "fadd (Fin a) (Fin b) = Fin (a + b)"
| "fadd NaN y = NaN"
| "fadd x NaN = NaN"
| "fadd PInf NInf = NaN"
| "fadd NInf PInf = NaN"
| "fadd PInf y = PInf"
| "fadd x PInf = PInf"
| "fadd NInf y = NInf"
| "fadd x NInf = NInf"

definition fsub :: "fl \<Rightarrow> fl \<Rightarrow> fl" where
  "fsub x y = fadd x (fneg y)"

definition inf_of_sign :: "bool \<Rightarrow> fl" where
  "inf_of_sign nonneg = (if nonneg then PInf else NInf)"

fun fmul :: "fl \<Rightarrow> fl \<Rightarrow> fl" where
  "fmul (Fin a) (Fin b) = Fin (a * b)"
| "fmul NaN y = NaN"
| "fmul x NaN = NaN"
| "fmul PInf (Fin b) = (if b = 0 then NaN else inf_of_sign (0 < b))"
| "fmul NInf (Fin b) = (if b = 0 then NaN else inf_of_sign (b < 0))"
| "fmul (Fin a) PInf = (if a = 0 then NaN else inf_of_sign (0 < a))"
| "fmul (Fin a) NInf = (if a = 0 then NaN else inf_of_sign (a < 0))"
| "fmul PInf PInf = PInf"
| "fmul PInf NInf = NInf"
| "fmul NInf PInf = NInf"
| "fmul NInf NInf = PInf"

fun fdiv :: "fl \<Rightarrow> fl \<Rightarrow> fl" where
  "fdiv (Fin a) (Fin b) =
     (if b \<noteq> 0 then Fin (a / b)
      else if a = 0 then NaN
      else inf_of_sign (0 < a))"
| "fdiv NaN y = NaN"
| "fdiv x NaN = NaN"
| "fdiv (Fin a) PInf = Fin 0"
| "fdiv (Fin a) NInf = Fin 0"
| "fdiv PInf (Fin b) = inf_of_sign (0 \<le> b)"
| "fdiv NInf (Fin b) = inf_of_sign (b < 0)"
| "fdiv PInf PInf = NaN"
| "fdiv PInf NInf = NaN"
| "fdiv NInf PInf = NaN"
| "fdiv NInf NInf = NaN"

fun flt :: "fl \<Rightarrow> fl \<Rightarrow> bool" where
  "flt (Fin a) (Fin b) = (a < b)"
| "flt NaN y = False"
| "flt x NaN = False"
| "flt PInf y = False"
| "flt x NInf = False"
| "flt NInf y = True"
| "flt x PInf = True"

fun fle :: "fl \<Rightarrow> fl \<Rightarrow> bool" where
  "fle (Fin a) (Fin b) = (a \<le> b)"
| "fle NaN y = False"
| "fle x NaN = False"
| "fle NInf y = True"
| "fle x PInf = True"
| "fle PInf y = False"
| "fle x NInf = False"

definition fgt :: "fl \<Rightarrow> fl \<Rightarrow> bool" where
  "fgt x y = flt y x"

definition fge :: "fl \<Rightarrow> fl \<Rightarrow> bool" where
  "fge x y = fle y x"


section \<open>The position manager: \<open>BacktestingEngine._execute_trade\<close>\<close>

datatype signal = BUY | SELL | HOLD

datatype status = OPEN | CLOSED

datatype close_reason = STOP_LOSS | TAKE_PROFIT | SIGNAL

text \<open>The dictionary \<open>signal_data\<close> that \<open>run_backtest\<close> builds for each bar.\<close>

record signal_data =
  sd_timestamp :: fl
  sd_symbol :: string
  sd_signal :: signal
  sd_price :: fl

text \<open>The dictionary stored in \<open>self.position\<close>; \<open>None\<close> is no open position.\<close>

record position =
  entry_price :: fl
  size_pos :: fl
  stop_loss :: fl
  take_profit :: fl
  entry_time :: fl

text \<open>
  A dictionary appended to \<open>self.trades\<close>. The keys \<open>pnl\<close>, \<open>pnl_pct\<close> and \<open>reason\<close>
  exist in the records of closing trades only.
\<close>

record trade =
  t_timestamp :: fl
  t_symbol :: string
  t_side :: signal
  t_price :: fl
  t_quantity :: fl
  t_value :: fl
  t_pnl :: "fl option"
  t_pnl_pct :: "fl option"
  t_balance_before :: fl
  t_balance_after :: fl
  t_status :: status
  t_reason :: "close_reason option"

text \<open>The attributes of the engine that a run reads and writes.\<close>

record engine =
  trades :: "trade list"
  signals :: "signal_data list"
  initial_balance :: real
  current_balance :: fl
  position :: "position option"
  position_size :: fl
  risk_per_trade :: real
  stop_loss_pct :: real
  take_profit_pct :: real

text \<open>The record appended by each of the three closing branches, and the state after it.\<close>

definition close_position :: "close_reason \<Rightarrow> signal_data \<Rightarrow> position \<Rightarrow> engine \<Rightarrow> engine" where
  "close_position why sd p st =
     (let current_price = sd_price sd;
          pnl = fmul (fsub current_price (entry_price p)) (size_pos p);
          bal = fadd (current_balance st) pnl
      in st\<lparr> current_balance := bal,
             trades := trades st @
               [\<lparr> t_timestamp = sd_timestamp sd,
                  t_symbol = sd_symbol sd,
                  t_side = SELL,
                  t_price = current_price,
                  t_quantity = size_pos p,
                  t_value = fmul current_price (size_pos p),
                  t_pnl = Some pnl,
                  t_pnl_pct = Some (fmul (fsub (fdiv current_price (entry_price p)) (Fin 1)) (Fin 100)),
                  t_balance_before = fsub bal pnl,
                  t_balance_after = bal,
                  t_status = CLOSED,
                  t_reason = Some why \<rparr>],
             position := None,
             position_size := Fin 0 \<rparr>)"

definition open_position :: "signal_data \<Rightarrow> engine \<Rightarrow> engine" where
  "open_position sd st =
     (let current_price = sd_price sd;
          risk_amount = fmul (current_balance st) (Fin (risk_per_trade st));
          psize = fdiv risk_amount current_price;
          sl = fmul current_price (Fin (1 - stop_loss_pct st));
          tp = fmul current_price (Fin (1 + take_profit_pct st))
      in st\<lparr> position_size := psize,
             position := Some \<lparr> entry_price = current_price, size_pos = psize,
                                stop_loss = sl, take_profit = tp,
                                entry_time = sd_timestamp sd \<rparr>,
             trades := trades st @
               [\<lparr> t_timestamp = sd_timestamp sd,
                  t_symbol = sd_symbol sd,
                  t_side = BUY,
                  t_price = current_price,
                  t_quantity = psize,
                  t_value = fmul current_price psize,
                  t_pnl = None,
                  t_pnl_pct = None,
                  t_balance_before = current_balance st,
                  t_balance_after = current_balance st,
                  t_status = OPEN,
                  t_reason = None \<rparr>] \<rparr>)"

text \<open>
  \<open>_execute_trade\<close>: the branch order is the source's. Every operand is a float, so no
  operation of the body raises and the \<open>except\<close> clause is never entered.
\<close>

definition execute_trade :: "signal_data \<Rightarrow> engine \<Rightarrow> engine" where
  "execute_trade sd st =
     (case position st of
        None \<Rightarrow> (if sd_signal sd = BUY then open_position sd st else st)
      | Some p \<Rightarrow>
          (if fle (sd_price sd) (stop_loss p) then close_position STOP_LOSS sd p st
           else if fge (sd_price sd) (take_profit p) then close_position TAKE_PROFIT sd p st
           else if sd_signal sd = SELL then close_position SIGNAL sd p st
           else st))"


section \<open>The signal generator: \<open>BacktestingEngine._generate_signal\<close>\<close>

text \<open>
  The last row of the frame, \<open>latest = df.iloc[-1]\<close>, with the columns that the signal
  generator and the driver read. \<open>_prepare_features\<close> adds every indicator column to a
  numeric frame, so each key exists, no lookup raises and the \<open>except\<close> clause of
  \<open>_generate_signal\<close> is never entered; an undefined indicator is the value NaN.
\<close>

record feature_row =
  openTime :: fl
  close :: fl
  rsi :: fl
  sma_20 :: fl
  sma_50 :: fl
  macd :: fl
  macd_signal :: fl
  macd_hist :: fl
  bb_lower :: fl
  bb_upper :: fl

definition generate_signal :: "feature_row \<Rightarrow> signal" where
  "generate_signal latest =
     (let s0 = HOLD;
          s1 = (if flt (rsi latest) (Fin 30) then BUY
                else if fgt (rsi latest) (Fin 70) then SELL
                else s0);
          s2 = (if fgt (sma_20 latest) (sma_50 latest) \<and> fgt (close latest) (sma_20 latest) then BUY
                else if flt (sma_20 latest) (sma_50 latest) \<and> flt (close latest) (sma_20 latest) then SELL
                else s1);
          s3 = (if fgt (macd latest) (macd_signal latest) \<and> fgt (macd_hist latest) (Fin 0) then BUY
                else if flt (macd latest) (macd_signal latest) \<and> flt (macd_hist latest) (Fin 0) then SELL
                else s2);
          s4 = (if flt (close latest) (bb_lower latest) then BUY
                else if fgt (close latest) (bb_upper latest) then SELL
                else s3)
      in s4)"

subsection \<open>The rule cascade as the specification words it\<close>

text \<open>
  Each of the four rules gives a verdict or none; the verdict of the last rule that fires
  is the signal, and the signal is HOLD when none fires.
\<close>

definition rule_rsi :: "feature_row \<Rightarrow> signal option" where
  "rule_rsi latest =
     (if flt (rsi latest) (Fin 30) then Some BUY
      else if fgt (rsi latest) (Fin 70) then Some SELL
      else None)"

definition rule_sma :: "feature_row \<Rightarrow> signal option" where
  "rule_sma latest =
     (if fgt (sma_20 latest) (sma_50 latest) \<and> fgt (close latest) (sma_20 latest) then Some BUY
      else if flt (sma_20 latest) (sma_50 latest) \<and> flt (close latest) (sma_20 latest) then Some SELL
      else None)"

definition rule_macd :: "feature_row \<Rightarrow> signal option" where
  "rule_macd latest =
     (if fgt (macd latest) (macd_signal latest) \<and> fgt (macd_hist latest) (Fin 0) then Some BUY
      else if flt (macd latest) (macd_signal latest) \<and> flt (macd_hist latest) (Fin 0) then Some SELL
      else None)"

definition rule_bb :: "feature_row \<Rightarrow> signal option" where
  "rule_bb latest =
     (if flt (close latest) (bb_lower latest) then Some BUY
      else if fgt (close latest) (bb_upper latest) then Some SELL
      else None)"

definition last_matching_rule :: "feature_row \<Rightarrow> signal" where
  "last_matching_rule latest =
     (case rev (List.map_filter (\<lambda>rule. rule latest) [rule_rsi, rule_sma, rule_macd, rule_bb]) of
        [] \<Rightarrow> HOLD
      | s # earlier \<Rightarrow> s)"

section \<open>The feature calculator: \<open>BacktestingEngine._prepare_features\<close>\<close>

text \<open>
  A candle is the dictionary that the data provider returns, with numeric values.
  \<open>pd.DataFrame\<close> of a list of dictionaries has a column for every key that occurs in
  some row, and NaN in the cells of the rows that lack the key.
\<close>

type_synonym kline = "string \<Rightarrow> real option"

definition column :: "string \<Rightarrow> kline list \<Rightarrow> fl list" where
  "column c rows = map (\<lambda>r. case r c of None \<Rightarrow> NaN | Some v \<Rightarrow> Fin v) rows"

definition has_column :: "kline list \<Rightarrow> string \<Rightarrow> bool" where
  "has_column rows c = list_ex (\<lambda>r. r c \<noteq> None) rows"

definition required_columns :: "string list" where
  "required_columns = [''openTime'', ''open'', ''high'', ''low'', ''close'', ''volume'']"

text \<open>\<open>Series.diff()\<close>: the first cell is NaN.\<close>

definition diff :: "fl list \<Rightarrow> fl list" where
  "diff xs = (case xs of [] \<Rightarrow> [] | x # rest \<Rightarrow> NaN # map2 fsub rest xs)"

text \<open>\<open>delta.where(delta > 0, 0)\<close> and \<open>-delta.where(delta < 0, 0)\<close>.\<close>

definition gain :: "fl list \<Rightarrow> fl list" where
  "gain delta = map (\<lambda>d. if fgt d (Fin 0) then d else Fin 0) delta"

definition loss :: "fl list \<Rightarrow> fl list" where
  "loss delta = map (\<lambda>d. fneg (if flt d (Fin 0) then d else Fin 0)) delta"

text \<open>
  \<open>rolling(window=w)\<close>: the cell of row \<open>i\<close> aggregates the rows \<open>i - w + 1 .. i\<close>, and is
  NaN while fewer than \<open>w\<close> rows exist or when the window holds a NaN (\<open>min_periods\<close> is the
  window length). The columns aggregated here hold finite values and NaN only.
\<close>

definition window :: "nat \<Rightarrow> nat \<Rightarrow> 'a list \<Rightarrow> 'a list" where
  "window w i xs = take w (drop (Suc i - w) xs)"

fun finite_vals :: "fl list \<Rightarrow> real list option" where
  "finite_vals [] = Some []"
| "finite_vals (Fin a # xs) = map_option ((#) a) (finite_vals xs)"
| "finite_vals (x # xs) = None"

definition rolling :: "nat \<Rightarrow> (real list \<Rightarrow> real) \<Rightarrow> fl list \<Rightarrow> fl list" where
  "rolling w f xs =
     map (\<lambda>i. if Suc i < w then NaN
              else case finite_vals (window w i xs) of None \<Rightarrow> NaN | Some vs \<Rightarrow> Fin (f vs))
         [0..<length xs]"

definition mean :: "real list \<Rightarrow> real" where
  "mean vs = sum_list vs / real (length vs)"

text \<open>\<open>.std()\<close> of pandas is the sample standard deviation (\<open>ddof = 1\<close>).\<close>

definition std :: "real list \<Rightarrow> real" where
  "std vs = sqrt (sum_list (map (\<lambda>v. (v - mean vs)\<^sup>2) vs) / real (length vs - 1))"

text \<open>
  \<open>ewm(span=s, adjust=False).mean()\<close>: \<open>y\<^sub>0 = x\<^sub>0\<close> and
  \<open>y\<^sub>t = (1 - \<alpha>) y\<^sub>t\<^sub>-\<^sub>1 + \<alpha> x\<^sub>t\<close> with \<open>\<alpha> = 2 / (s + 1)\<close>. A NaN cell keeps the
  previous average and ages its weight by \<open>1 - \<alpha>\<close> (\<open>ignore_na = False\<close>); the state is
  the running average and the weight of the old average.
\<close>

fun ewm_step :: "real \<Rightarrow> fl \<times> real \<Rightarrow> fl \<Rightarrow> fl \<times> real" where
  "ewm_step \<alpha> (NaN, old_wt) cur = (cur, old_wt)"
| "ewm_step \<alpha> (weighted, old_wt) NaN = (weighted, old_wt * (1 - \<alpha>))"
| "ewm_step \<alpha> (weighted, old_wt) cur =
     (fdiv (fadd (fmul (Fin (old_wt * (1 - \<alpha>))) weighted) (fmul (Fin \<alpha>) cur))
           (Fin (old_wt * (1 - \<alpha>) + \<alpha>)), 1)"

fun ewm_scan :: "real \<Rightarrow> fl \<times> real \<Rightarrow> fl list \<Rightarrow> fl list" where
  "ewm_scan \<alpha> s [] = []"
| "ewm_scan \<alpha> s (x # xs) = fst (ewm_step \<alpha> s x) # ewm_scan \<alpha> (ewm_step \<alpha> s x) xs"

definition ewm :: "nat \<Rightarrow> fl list \<Rightarrow> fl list" where
  "ewm span_n xs =
     (case xs of [] \<Rightarrow> [] | x # rest \<Rightarrow> x # ewm_scan (2 / (real span_n + 1)) (x, 1) rest)"

text \<open>The columns of the relative strength index.\<close>

definition avg_gain :: "fl list \<Rightarrow> fl list" where
  "avg_gain closes = rolling 14 mean (gain (diff closes))"

definition avg_loss :: "fl list \<Rightarrow> fl list" where
  "avg_loss closes = rolling 14 mean (loss (diff closes))"

definition rsi_of_rs :: "fl \<Rightarrow> fl" where
  "rsi_of_rs rs = fsub (Fin 100) (fdiv (Fin 100) (fadd (Fin 1) rs))"

definition rsi_column :: "fl list \<Rightarrow> fl list" where
  "rsi_column closes = map rsi_of_rs (map2 fdiv (avg_gain closes) (avg_loss closes))"

text \<open>The moving averages, the MACD and the Bollinger bands.\<close>

definition sma_column :: "nat \<Rightarrow> fl list \<Rightarrow> fl list" where
  "sma_column w closes = rolling w mean closes"

definition macd_column :: "fl list \<Rightarrow> fl list" where
  "macd_column closes = map2 fsub (ewm 12 closes) (ewm 26 closes)"

definition macd_signal_column :: "fl list \<Rightarrow> fl list" where
  "macd_signal_column closes = ewm 9 (macd_column closes)"

definition macd_hist_column :: "fl list \<Rightarrow> fl list" where
  "macd_hist_column closes = map2 fsub (macd_column closes) (macd_signal_column closes)"

definition bb_std_column :: "fl list \<Rightarrow> fl list" where
  "bb_std_column closes = rolling 20 std closes"

definition bb_upper_column :: "fl list \<Rightarrow> fl list" where
  "bb_upper_column closes =
     map2 fadd (sma_column 20 closes) (map (fmul (Fin 2)) (bb_std_column closes))"

definition bb_lower_column :: "fl list \<Rightarrow> fl list" where
  "bb_lower_column closes =
     map2 fsub (sma_column 20 closes) (map (fmul (Fin 2)) (bb_std_column closes))"

text \<open>
  \<open>df.fillna(method='bfill')\<close>: in every column, a NaN cell takes the value of the next
  row below it that is not NaN, and stays NaN when there is none.
\<close>

fun bfill :: "fl list \<Rightarrow> fl list" where
  "bfill [] = []"
| "bfill (NaN # xs) = (case bfill xs of [] \<Rightarrow> NaN | y # ys \<Rightarrow> y) # bfill xs"
| "bfill (x # xs) = x # bfill xs"

text \<open>
  The prepared frame, row by row. The columns \<open>sma_200\<close>, \<open>ema_12\<close>, \<open>ema_26\<close>,
  \<open>bb_middle\<close>, \<open>bb_std\<close>, \<open>momentum\<close> and \<open>volatility\<close> are computed by the source and
  read by nothing afterwards; they are not part of the row. No operation on a numeric
  column raises, so the \<open>except\<close> clause is never entered.
\<close>

definition prepare_features :: "kline list \<Rightarrow> feature_row list" where
  "prepare_features rows =
     (let closes = column ''close'' rows;
          c_openTime = bfill (column ''openTime'' rows);
          c_close = bfill closes;
          c_rsi = bfill (rsi_column closes);
          c_sma_20 = bfill (sma_column 20 closes);
          c_sma_50 = bfill (sma_column 50 closes);
          c_macd = bfill (macd_column closes);
          c_macd_signal = bfill (macd_signal_column closes);
          c_macd_hist = bfill (macd_hist_column closes);
          c_bb_lower = bfill (bb_lower_column closes);
          c_bb_upper = bfill (bb_upper_column closes)
      in map (\<lambda>i. \<lparr> openTime = c_openTime ! i, close = c_close ! i, rsi = c_rsi ! i,
                     sma_20 = c_sma_20 ! i, sma_50 = c_sma_50 ! i, macd = c_macd ! i,
                     macd_signal = c_macd_signal ! i, macd_hist = c_macd_hist ! i,
                     bb_lower = c_bb_lower ! i, bb_upper = c_bb_upper ! i \<rparr>)
             [0..<length rows])"

section \<open>The simulation driver: \<open>BacktestingEngine.run_backtest\<close>\<close>

definition reset_engine :: "real \<Rightarrow> real \<Rightarrow> real \<Rightarrow> real \<Rightarrow> engine" where
  "reset_engine ib r slp tpp =
     \<lparr> trades = [], signals = [], initial_balance = ib, current_balance = Fin ib,
       position = None, position_size = Fin 0, risk_per_trade = r,
       stop_loss_pct = slp, take_profit_pct = tpp \<rparr>"

text \<open>The body of the loop, for the row \<open>latest\<close> of the current bar.\<close>

definition bar_step :: "string \<Rightarrow> feature_row \<Rightarrow> engine \<Rightarrow> engine" where
  "bar_step symbol latest st =
     (let sd = \<lparr> sd_timestamp = openTime latest, sd_symbol = symbol,
                 sd_signal = generate_signal latest, sd_price = close latest \<rparr>
      in execute_trade sd (st\<lparr> signals := signals st @ [sd] \<rparr>))"

text \<open>
  \<open>for i in range(100, len(df))\<close>, with \<open>current_data = df.iloc[:i+1]\<close> and
  \<open>current_data.iloc[-1]\<close> its last row.
\<close>

fun replay :: "string \<Rightarrow> feature_row list \<Rightarrow> nat list \<Rightarrow> engine \<Rightarrow> engine" where
  "replay symbol df [] st = st"
| "replay symbol df (i # rest) st =
     replay symbol df rest (bar_step symbol (last (take (Suc i) df)) st)"

text \<open>
  The report of a successful run. Its entry \<open>metrics\<close>, which \<open>_calculate_performance\<close>
  derives from the trade log inside an \<open>except\<close> clause of its own, is not modelled.
\<close>

record report =
  r_initial_balance :: real
  r_final_balance :: fl
  r_profit_loss :: fl
  r_profit_loss_pct :: fl
  r_trades :: "trade list"
  r_signals :: "signal_data list"

text \<open>
  \<open>run_backtest\<close> on the candles that \<open>_get_historical_data\<close> returned: the state of the
  engine after the call, and the error message or the report. The balance is a Python
  float until the first close adds a numpy value to it; dividing a Python float by a zero
  initial balance raises, which the \<open>except\<close> clause turns into an error.
\<close>

definition run_backtest ::
  "kline list \<Rightarrow> string \<Rightarrow> real \<Rightarrow> real \<Rightarrow> real \<Rightarrow> real \<Rightarrow> engine \<times> (string + report)" where
  "run_backtest historical_data symbol ib r slp tpp =
     (let st0 = reset_engine ib r slp tpp in
      if historical_data = [] \<or> length historical_data < 100
      then (st0, Inl ''Insufficient historical data for backtesting'')
      else if \<not> list_all (has_column historical_data) required_columns
      then (st0, Inl ''Historical data missing required columns'')
      else
        let df = prepare_features historical_data;
            st = replay symbol df [100..<length df] st0
        in if ib = 0 \<and> \<not> list_ex (\<lambda>t. t_status t = CLOSED) (trades st)
           then (st, Inl ''Backtest failed: float division by zero'')
           else (st, Inr \<lparr> r_initial_balance = ib,
                           r_final_balance = current_balance st,
                           r_profit_loss = fsub (current_balance st) (Fin ib),
                           r_profit_loss_pct =
                             fmul (fsub (fdiv (current_balance st) (Fin ib)) (Fin 1)) (Fin 100),
                           r_trades = trades st,
                           r_signals = signals st \<rparr>))"


section \<open>Realised profit: \<open>_calculate_realised_pnl_and_hold_times\<close>\<close>

text \<open>
  A row of the table \<open>Trade\<close>, and an entry of a list in \<open>positions\<close>: an earlier buy with
  the quantity that no sell has matched yet. Sizes and prices are finite floats; the
  function adds, subtracts, multiplies and compares them, and nothing in it raises.
\<close>

record fill =
  f_symbol :: string
  f_side :: string
  f_size :: real
  f_price :: real
  f_ts :: int

record lot =
  lot_size :: real
  lot_price :: real
  lot_ts :: int

text \<open>\<open>str.upper()\<close> on the ASCII letters that symbols and sides are written in.\<close>

definition upper_char :: "char \<Rightarrow> char" where
  "upper_char c =
     (let n = of_char c :: nat in if 97 \<le> n \<and> n \<le> 122 then char_of (n - 32) else c)"

definition upper :: "string \<Rightarrow> string" where
  "upper s = map upper_char s"

text \<open>
  The \<open>while\<close> loop that matches one sell against the list of the symbol: the remaining
  list, the realised profit of the symbol and the hold times come back.
\<close>

function match_sell ::
  "real \<Rightarrow> int \<Rightarrow> real \<Rightarrow> lot list \<Rightarrow> real \<Rightarrow> int list \<Rightarrow> lot list \<times> real \<times> int list" where
  "match_sell sell_price sell_ts qty_to_sell queue pnl_acc hold_times =
     (if 0 < qty_to_sell \<and> queue \<noteq> [] then
        let buy = hd queue;
            matched_size = min qty_to_sell (lot_size buy);
            pnl = (sell_price - lot_price buy) * matched_size;
            buy' = buy\<lparr> lot_size := lot_size buy - matched_size \<rparr>
        in match_sell sell_price sell_ts (qty_to_sell - matched_size)
             (if lot_size buy' \<le> 0 then tl queue else buy' # tl queue)
             (pnl_acc + pnl) (hold_times @ [sell_ts - lot_ts buy])
      else (queue, pnl_acc, hold_times))"
  by pat_completeness auto
termination
  by (relation "measure (\<lambda>(sp, sts, q, queue, acc, hts).
        2 * length queue + (if 0 < q then 1 else 0))")
     (auto simp: Let_def min_def split: if_splits)

declare match_sell.simps [simp del]

text \<open>The three local variables of the function; a dictionary is a map.\<close>

record matching =
  positions :: "string \<Rightarrow> lot list option"
  realised_pnl :: "string \<Rightarrow> real option"
  hold_times :: "int list"

definition setdefault :: "('k \<Rightarrow> 'v option) \<Rightarrow> 'k \<Rightarrow> 'v \<Rightarrow> ('k \<Rightarrow> 'v option)" where
  "setdefault m k d = (case m k of None \<Rightarrow> m(k \<mapsto> d) | Some v \<Rightarrow> m)"

definition lookup :: "('k \<Rightarrow> 'v option) \<Rightarrow> 'k \<Rightarrow> 'v \<Rightarrow> 'v" where
  "lookup m k d = (case m k of None \<Rightarrow> d | Some v \<Rightarrow> v)"

text \<open>
  The body of the \<open>for\<close> loop. After the two calls of \<open>setdefault\<close> the symbol is a key of
  both dictionaries, so the default of \<open>lookup\<close> is never used.
\<close>

definition process_trade :: "fill \<Rightarrow> matching \<Rightarrow> matching" where
  "process_trade trade st =
     (let symbol = upper (f_symbol trade);
          realised = setdefault (realised_pnl st) symbol 0;
          pos = setdefault (positions st) symbol []
      in if upper (f_side trade) = ''BUY'' then
           st\<lparr> realised_pnl := realised,
                positions := pos(symbol \<mapsto> lookup pos symbol [] @
                  [\<lparr> lot_size = f_size trade, lot_price = f_price trade, lot_ts = f_ts trade \<rparr>]) \<rparr>
         else if upper (f_side trade) = ''SELL'' then
           (case match_sell (f_price trade) (f_ts trade) (f_size trade)
                   (lookup pos symbol []) (lookup realised symbol 0) (hold_times st) of
              (queue, pnl, hts) \<Rightarrow>
                st\<lparr> realised_pnl := realised(symbol \<mapsto> pnl),
                     positions := pos(symbol \<mapsto> queue),
                     hold_times := hts \<rparr>)
         else st\<lparr> realised_pnl := realised, positions := pos \<rparr>)"

definition match_all :: "fill list \<Rightarrow> matching" where
  "match_all fills =
     foldl (\<lambda>st trade. process_trade trade st)
       \<lparr> positions = Map.empty, realised_pnl = Map.empty, hold_times = [] \<rparr> fills"

definition calculate_realised_pnl_and_hold_times ::
  "fill list \<Rightarrow> (string \<Rightarrow> real option) \<times> int list" where
  "calculate_realised_pnl_and_hold_times fills =
     (realised_pnl (match_all fills), hold_times (match_all fills))"

section \<open>Inputs and notions used in the statements\<close>

subsection \<open>The position manager\<close>

text \<open>The records that a bar appends to the trade log.\<close>

definition new_trades :: "engine \<Rightarrow> engine \<Rightarrow> trade list" where
  "new_trades st st' = drop (length (trades st)) (trades st')"

text \<open>
  A position \<open>p\<close> is closed at the price \<open>exit_price\<close> for the reason \<open>why\<close>: one closing
  SELL record with that price and reason is appended, the profit
  \<open>(exit_price - entry_price) * size\<close> is booked in the record and on the balance, and no
  position is open afterwards.
\<close>

definition closed_at :: "engine \<Rightarrow> engine \<Rightarrow> position \<Rightarrow> fl \<Rightarrow> close_reason \<Rightarrow> bool" where
  "closed_at st st' p exit_price why =
     (case new_trades st st' of
        [t] \<Rightarrow> trades st' = trades st @ [t] \<and> t_status t = CLOSED \<and> t_side t = SELL
               \<and> t_price t = exit_price \<and> t_reason t = Some why
               \<and> t_pnl t = Some (fmul (fsub exit_price (entry_price p)) (size_pos p))
               \<and> current_balance st' =
                   fadd (current_balance st) (fmul (fsub exit_price (entry_price p)) (size_pos p))
               \<and> position st' = None
      | _ \<Rightarrow> False)"




text \<open>A bar of the symbol BTCUSDT with a signal, a price and a time.\<close>

definition bar :: "signal \<Rightarrow> real \<Rightarrow> real \<Rightarrow> signal_data" where
  "bar s p t = \<lparr> sd_timestamp = Fin t, sd_symbol = ''BTCUSDT'', sd_signal = s, sd_price = Fin p \<rparr>"

text \<open>
  The engine of a run with the default parameters after a BUY at the price 100: a
  position of size 2 with the stop at 98 and the target at 104.
\<close>

definition demo_open :: engine where
  "demo_open = execute_trade (bar BUY 100 1) (reset_engine 10000 0.02 0.02 0.04)"

definition demo_position :: position where
  "demo_position = \<lparr> entry_price = Fin 100, size_pos = Fin 2, stop_loss = Fin 98,
                      take_profit = Fin 104, entry_time = Fin 1 \<rparr>"

subsection \<open>The trade log\<close>








subsection \<open>Feature rows and candle histories\<close>

text \<open>A row whose RSI is undefined while the moving averages give BUY, and a row of NaN.\<close>

definition nan_rsi_row :: feature_row where
  "nan_rsi_row = \<lparr> openTime = Fin 0, close = Fin 120, rsi = NaN, sma_20 = Fin 110, sma_50 = Fin 100,
                   macd = Fin 0, macd_signal = Fin 0, macd_hist = Fin 0,
                   bb_lower = Fin 90, bb_upper = Fin 130 \<rparr>"

definition all_nan_row :: feature_row where
  "all_nan_row = \<lparr> openTime = Fin 0, close = NaN, rsi = NaN, sma_20 = NaN, sma_50 = NaN,
                   macd = NaN, macd_signal = NaN, macd_hist = NaN,
                   bb_lower = NaN, bb_upper = NaN \<rparr>"

text \<open>
  A candle with every key that the engine requires, and the history with the given
  closing prices, one candle per time unit.
\<close>

definition candle :: "real \<Rightarrow> real \<Rightarrow> kline" where
  "candle t c = [''openTime'' \<mapsto> t, ''open'' \<mapsto> c, ''high'' \<mapsto> c, ''low'' \<mapsto> c,
                 ''close'' \<mapsto> c, ''volume'' \<mapsto> 1]"

definition history :: "real list \<Rightarrow> kline list" where
  "history closes = map (\<lambda>i. candle (real i) (closes ! i)) [0..<length closes]"

text \<open>A candle without the keys \<open>open\<close>, \<open>high\<close>, \<open>low\<close> and \<open>volume\<close>.\<close>

definition bare_candle :: kline where
  "bare_candle = [''openTime'' \<mapsto> 0, ''close'' \<mapsto> 100]"

text \<open>Fifteen rising prices and fifteen equal prices.\<close>

definition rising :: "real list" where
  "rising = [100, 101, 102, 103, 104, 105, 106, 107, 108, 109, 110, 111, 112, 113, 114]"

definition flat15 :: "real list" where
  "flat15 = [100, 100, 100, 100, 100, 100, 100, 100, 100, 100, 100, 100, 100, 100, 100]"

text \<open>
  The price 100 on the bars 0 to 100 and the price \<open>d\<close> on the bar 101; the two histories
  below are equal up to the bar 100.
\<close>

definition flat_then :: "real \<Rightarrow> real list" where
  "flat_then d = replicate 101 100 @ [d]"

definition history_down :: "kline list" where
  "history_down = history (flat_then 99)"

definition history_up :: "kline list" where
  "history_up = history (flat_then 101)"

text \<open>The price 100 on the bars 0 to 99, the price 0 on the bar 100 and 100 again on the bar 101.\<close>

definition zero_dip :: "real list" where
  "zero_dip = replicate 100 100 @ [0, 100]"

subsection \<open>First in, first out, as the specification words it\<close>

text \<open>
  Selling the quantity \<open>q\<close> against the unmatched buys of a symbol, oldest first: the
  oldest buy gives up to its whole quantity, the next buy is touched only when the older
  one is exhausted, and what is left of \<open>q\<close> when no buy remains is dropped.
  \<open>consume\<close> is the list of buys that remains, \<open>realised\<close> the profit at the sell price
  \<open>p\<close>, \<open>held\<close> the hold times of the buys touched.
\<close>

fun consume :: "real \<Rightarrow> lot list \<Rightarrow> lot list" where
  "consume q [] = []"
| "consume q (b # bs) =
     (if q \<le> 0 then b # bs
      else if q < lot_size b then b\<lparr> lot_size := lot_size b - q \<rparr> # bs
      else consume (q - lot_size b) bs)"

fun realised :: "real \<Rightarrow> real \<Rightarrow> lot list \<Rightarrow> real" where
  "realised p q [] = 0"
| "realised p q (b # bs) =
     (if q \<le> 0 then 0
      else if q < lot_size b then (p - lot_price b) * q
      else (p - lot_price b) * lot_size b + realised p (q - lot_size b) bs)"

fun held :: "int \<Rightarrow> real \<Rightarrow> lot list \<Rightarrow> int list" where
  "held ts q [] = []"
| "held ts q (b # bs) =
     (if q \<le> 0 then []
      else if q < lot_size b then [ts - lot_ts b]
      else (ts - lot_ts b) # held ts (q - lot_size b) bs)"

text \<open>The entry that a buy adds to the list of its symbol.\<close>

definition lot_of :: "fill \<Rightarrow> lot" where
  "lot_of t = \<lparr> lot_size = f_size t, lot_price = f_price t, lot_ts = f_ts t \<rparr>"

text \<open>Two buys and a sell of the size of the first buy, in mixed case.\<close>

definition demo_b1 :: fill where
  "demo_b1 = \<lparr> f_symbol = ''btcusdt'', f_side = ''buy'', f_size = 1, f_price = 100, f_ts = 10 \<rparr>"

definition demo_b2 :: fill where
  "demo_b2 = \<lparr> f_symbol = ''BTCUSDT'', f_side = ''BUY'', f_size = 2, f_price = 110, f_ts = 20 \<rparr>"

definition demo_s1 :: fill where
  "demo_s1 = \<lparr> f_symbol = ''BtcUsdt'', f_side = ''Sell'', f_size = 1, f_price = 120, f_ts = 30 \<rparr>"

section \<open>Properties of the position manager\<close>

lemma demo_open_eval:
  "demo_open =
     \<lparr> trades = [\<lparr> t_timestamp = Fin 1, t_symbol = ''BTCUSDT'', t_side = BUY, t_price = Fin 100,
                   t_quantity = Fin 2, t_value = Fin 200, t_pnl = None, t_pnl_pct = None,
                   t_balance_before = Fin 10000, t_balance_after = Fin 10000,
                   t_status = OPEN, t_reason = None \<rparr>],
       signals = [], initial_balance = 10000, current_balance = Fin 10000,
       position = Some \<lparr> entry_price = Fin 100, size_pos = Fin 2, stop_loss = Fin 98,
                         take_profit = Fin 104, entry_time = Fin 1 \<rparr>,
       position_size = Fin 2, risk_per_trade = 0.02, stop_loss_pct = 0.02,
       take_profit_pct = 0.04 \<rparr>"
  by (simp add: demo_open_def execute_trade_def open_position_def reset_engine_def bar_def Let_def)

lemma demo_open_position: "position demo_open = Some demo_position"
  by (simp add: demo_open_eval demo_position_def)

subsection \<open>Order of the closing tests\<close>

text \<open>
  Claim C4. On a bar processed with a position open, the stop-loss test comes first, the
  take-profit test second and the SELL signal third: the reason of the record appended
  is that of the first test that holds. At most one record is appended, it is a closing
  SELL record, after it no position is open whatever the signal of the bar is, and a bar
  that appends nothing leaves the engine as it was.
\<close>

theorem execute_trade_close_order:
  assumes "position st = Some p"
  shows "trades (execute_trade sd st) = trades st @ new_trades st (execute_trade sd st)
    \<and> map t_reason (new_trades st (execute_trade sd st)) =
        (if fle (sd_price sd) (stop_loss p) then [Some STOP_LOSS]
         else if fge (sd_price sd) (take_profit p) then [Some TAKE_PROFIT]
         else if sd_signal sd = SELL then [Some SIGNAL]
         else [])
    \<and> length (new_trades st (execute_trade sd st)) \<le> 1
    \<and> (\<forall>t \<in> set (new_trades st (execute_trade sd st)). t_status t = CLOSED \<and> t_side t = SELL)
    \<and> (new_trades st (execute_trade sd st) \<noteq> [] \<longrightarrow> position (execute_trade sd st) = None)
    \<and> (new_trades st (execute_trade sd st) = [] \<longrightarrow> execute_trade sd st = st)"
  using assms by (simp add: execute_trade_def close_position_def new_trades_def Let_def)

text \<open>
  At the open position above, a bar at the price 90 with a BUY signal: the stop-loss
  closes the position and the BUY of the same bar opens nothing.
\<close>

theorem execute_trade_close_order_witness:
  "position demo_open = Some demo_position
   \<and> map t_reason (new_trades demo_open (execute_trade (bar BUY 90 2) demo_open)) = [Some STOP_LOSS]
   \<and> position (execute_trade (bar BUY 90 2) demo_open) = None"
  using execute_trade_close_order [OF demo_open_position, of "bar BUY 90 2"] demo_open_position
  by (auto simp: bar_def demo_position_def)

subsection \<open>Forced closes\<close>

text \<open>
  Claim C1, as stated, fails. At the open position above (entry 100, size 2, stop 98) a
  bar at the price 90 triggers the stop-loss, and the position is not closed at the stop
  price: the record appended has the price 90 of the bar and the profit
  \<open>(90 - 100) * 2 = - 20\<close>, where a close at the stop price would book
  \<open>(98 - 100) * 2 = - 4\<close>.
\<close>

theorem forced_close_at_stop_price_counterexample:
  "position demo_open = Some demo_position
   \<and> fle (sd_price (bar HOLD 90 2)) (stop_loss demo_position)
   \<and> \<not> closed_at demo_open (execute_trade (bar HOLD 90 2) demo_open) demo_position
         (stop_loss demo_position) STOP_LOSS
   \<and> map t_price (new_trades demo_open (execute_trade (bar HOLD 90 2) demo_open)) = [Fin 90]
   \<and> map t_pnl (new_trades demo_open (execute_trade (bar HOLD 90 2) demo_open)) = [Some (Fin (- 20))]
   \<and> stop_loss demo_position = Fin 98
   \<and> fmul (fsub (stop_loss demo_position) (entry_price demo_position)) (size_pos demo_position)
       = Fin (- 4)"
  by (simp add: demo_open_eval demo_position_def bar_def execute_trade_def close_position_def
      closed_at_def new_trades_def fsub_def Let_def)

text \<open>
  Claim C1, amended. On a bar processed with a position open: when the price of the bar
  is at most the stop-loss level, the position is closed at the price of the bar with the
  reason STOP_LOSS; when the stop-loss test fails and the price is at least the
  take-profit level, it is closed at the price of the bar with the reason TAKE_PROFIT.
  In both cases the exit price is the price of the bar and the profit booked is
  \<open>(exit_price - entry_price) * size\<close>.
\<close>

theorem execute_trade_forced_close:
  assumes "position st = Some p"
  shows "(fle (sd_price sd) (stop_loss p) \<longrightarrow>
            closed_at st (execute_trade sd st) p (sd_price sd) STOP_LOSS)
       \<and> (\<not> fle (sd_price sd) (stop_loss p) \<and> fge (sd_price sd) (take_profit p) \<longrightarrow>
            closed_at st (execute_trade sd st) p (sd_price sd) TAKE_PROFIT)"
  using assms
  by (simp add: execute_trade_def close_position_def closed_at_def new_trades_def Let_def)

theorem execute_trade_forced_close_witness:
  "position demo_open = Some demo_position
   \<and> fle (sd_price (bar HOLD 90 2)) (stop_loss demo_position)
   \<and> closed_at demo_open (execute_trade (bar HOLD 90 2) demo_open) demo_position (Fin 90) STOP_LOSS
   \<and> \<not> fle (sd_price (bar HOLD 110 2)) (stop_loss demo_position)
   \<and> fge (sd_price (bar HOLD 110 2)) (take_profit demo_position)
   \<and> closed_at demo_open (execute_trade (bar HOLD 110 2) demo_open) demo_position (Fin 110)
       TAKE_PROFIT"
  using execute_trade_forced_close [OF demo_open_position, of "bar HOLD 90 2"]
        execute_trade_forced_close [OF demo_open_position, of "bar HOLD 110 2"]
        demo_open_position
  by (simp add: bar_def demo_position_def fge_def)

subsection \<open>A single position\<close>








section \<open>Properties of the signal generator\<close>

lemma flt_NaN [simp]: "\<not> flt x NaN"
  by (cases x) simp_all

lemma generate_signal_by_rules:
  "generate_signal latest =
     (case rule_bb latest of Some s \<Rightarrow> s | None \<Rightarrow>
      (case rule_macd latest of Some s \<Rightarrow> s | None \<Rightarrow>
       (case rule_sma latest of Some s \<Rightarrow> s | None \<Rightarrow>
        (case rule_rsi latest of Some s \<Rightarrow> s | None \<Rightarrow> HOLD))))"
  unfolding generate_signal_def Let_def rule_bb_def rule_macd_def rule_sma_def rule_rsi_def
  by simp

lemma last_matching_rule_by_rules:
  "last_matching_rule latest =
     (case rule_bb latest of Some s \<Rightarrow> s | None \<Rightarrow>
      (case rule_macd latest of Some s \<Rightarrow> s | None \<Rightarrow>
       (case rule_sma latest of Some s \<Rightarrow> s | None \<Rightarrow>
        (case rule_rsi latest of Some s \<Rightarrow> s | None \<Rightarrow> HOLD))))"
  by (cases "rule_bb latest"; cases "rule_macd latest"; cases "rule_sma latest";
      cases "rule_rsi latest")
     (simp_all add: last_matching_rule_def List.map_filter_def)

lemma generate_signal_last_matching: "generate_signal latest = last_matching_rule latest"
  by (simp only: generate_signal_by_rules last_matching_rule_by_rules)


text \<open>
  Claim C9, as stated, fails in its clause on undefined inputs. In the row below the
  RSI, the input of the first rule, is NaN, and the signal is BUY, not HOLD: the rule of
  the moving averages fires.
\<close>

theorem undefined_input_counterexample:
  "rsi nan_rsi_row = NaN \<and> generate_signal nan_rsi_row = BUY \<and> generate_signal nan_rsi_row \<noteq> HOLD"
  by (simp add: nan_rsi_row_def generate_signal_def fgt_def)

text \<open>
  Claim C9, amended. The signal is the verdict of the last of the four rules, in the
  order RSI, moving averages, MACD, Bollinger bands, that fires, and HOLD when no rule
  fires. A comparison with an undefined value is false: the RSI rule does not fire on an
  undefined RSI, the rules of the moving averages and of the MACD do not fire when one of
  their inputs is undefined, the Bollinger rule does not fire when the close or both
  bands are undefined. So the signal is HOLD when every rule has undefined inputs, while
  an undefined input of one rule does not stop another rule from firing. The signal is
  one of BUY, SELL and HOLD, and equal inputs give equal signals.
\<close>

theorem signal_cascade:
  "generate_signal latest = last_matching_rule latest
   \<and> (rule_rsi latest = None \<and> rule_sma latest = None \<and> rule_macd latest = None
        \<and> rule_bb latest = None \<longrightarrow> generate_signal latest = HOLD)
   \<and> (rsi latest = NaN \<longrightarrow> rule_rsi latest = None)
   \<and> (sma_20 latest = NaN \<or> sma_50 latest = NaN \<or> close latest = NaN \<longrightarrow> rule_sma latest = None)
   \<and> (macd latest = NaN \<or> macd_signal latest = NaN \<or> macd_hist latest = NaN \<longrightarrow>
        rule_macd latest = None)
   \<and> (close latest = NaN \<or> (bb_lower latest = NaN \<and> bb_upper latest = NaN) \<longrightarrow>
        rule_bb latest = None)
   \<and> generate_signal latest \<in> {BUY, SELL, HOLD}
   \<and> (latest' = latest \<longrightarrow> generate_signal latest' = generate_signal latest)"
proof -
  have a: "generate_signal latest = last_matching_rule latest"
    by (rule generate_signal_last_matching)
  have b: "rule_rsi latest = None \<and> rule_sma latest = None \<and> rule_macd latest = None
        \<and> rule_bb latest = None \<longrightarrow> generate_signal latest = HOLD"
    by (simp add: a last_matching_rule_def List.map_filter_def)
  have c: "rsi latest = NaN \<longrightarrow> rule_rsi latest = None"
    by (simp add: rule_rsi_def fgt_def)
  have d: "sma_20 latest = NaN \<or> sma_50 latest = NaN \<or> close latest = NaN \<longrightarrow>
        rule_sma latest = None"
    by (auto simp: rule_sma_def fgt_def)
  have e: "macd latest = NaN \<or> macd_signal latest = NaN \<or> macd_hist latest = NaN \<longrightarrow>
        rule_macd latest = None"
    by (auto simp: rule_macd_def fgt_def)
  have f: "close latest = NaN \<or> (bb_lower latest = NaN \<and> bb_upper latest = NaN) \<longrightarrow>
        rule_bb latest = None"
    by (auto simp: rule_bb_def fgt_def)
  have g: "generate_signal latest \<in> {BUY, SELL, HOLD}"
    by (cases "generate_signal latest") simp_all
  show ?thesis using a b c d e f g by blast
qed

theorem signal_cascade_witness:
  "rule_rsi all_nan_row = None \<and> rule_sma all_nan_row = None \<and> rule_macd all_nan_row = None
   \<and> rule_bb all_nan_row = None \<and> rsi all_nan_row = NaN \<and> generate_signal all_nan_row = HOLD
   \<and> generate_signal nan_rsi_row = last_matching_rule nan_rsi_row
   \<and> last_matching_rule nan_rsi_row = BUY"
  using signal_cascade [of all_nan_row all_nan_row] signal_cascade [of nan_rsi_row nan_rsi_row]
  by (simp add: all_nan_row_def nan_rsi_row_def last_matching_rule_def rule_rsi_def rule_sma_def
      rule_macd_def rule_bb_def List.map_filter_def fgt_def)

section \<open>Properties of the feature calculator\<close>

subsection \<open>Columns, row by row\<close>

lemma length_history [simp]: "length (history closes) = length closes"
  by (simp add: history_def)

lemma candle_close: "candle t c ''close'' = Some c"
  by (simp add: candle_def)

lemma column_close_history [simp]: "column ''close'' (history closes) = map Fin closes"
  by (rule nth_equalityI) (simp_all add: history_def column_def candle_close)

lemma has_column_history:
  assumes "closes \<noteq> []"
  shows "list_all (has_column (history closes)) required_columns"
proof -
  from assms have mem: "candle 0 (closes ! 0) \<in> set (history closes)"
    by (cases closes) (simp_all add: history_def upt_conv_Cons del: upt_Suc)
  have req: "list_all (\<lambda>k. candle 0 (closes ! 0) k \<noteq> None) required_columns"
    by (simp add: required_columns_def candle_def)
  show ?thesis
    unfolding has_column_def list_ex_iff list_all_iff
  proof
    fix k assume "k \<in> set required_columns"
    then have "candle 0 (closes ! 0) k \<noteq> None"
      using req by (simp add: list_all_iff)
    then show "\<exists>r\<in>set (history closes). r k \<noteq> None"
      using mem by (rule_tac x = "candle 0 (closes ! 0)" in bexI)
  qed
qed

lemma length_bfill [simp]: "length (bfill xs) = length xs"
  by (induction xs rule: bfill.induct) simp_all

lemma bfill_Cons:
  "bfill (x # xs) = (if x = NaN then (case bfill xs of [] \<Rightarrow> NaN | y # ys \<Rightarrow> y) else x) # bfill xs"
  by (cases x) simp_all

lemma bfill_nth_defined: "i < length xs \<Longrightarrow> xs ! i \<noteq> NaN \<Longrightarrow> bfill xs ! i = xs ! i"
proof (induction xs arbitrary: i)
  case Nil
  then show ?case by simp
next
  case (Cons x xs)
  then show ?case by (cases i) (simp_all add: bfill_Cons del: bfill.simps)
qed

lemma bfill_nth_NaN: "Suc i < length xs \<Longrightarrow> xs ! i = NaN \<Longrightarrow> bfill xs ! i = bfill xs ! Suc i"
proof (induction xs arbitrary: i)
  case Nil
  then show ?case by simp
next
  case (Cons x xs)
  show ?case
  proof (cases i)
    case 0
    with Cons.prems length_bfill [of xs] show ?thesis
      by (cases "bfill xs") (auto simp: bfill_Cons simp del: bfill.simps)
  next
    case (Suc j)
    with Cons show ?thesis by (simp add: bfill_Cons del: bfill.simps)
  qed
qed

lemma bfill_snoc_NaN: "bfill (ys @ [NaN]) ! length ys = NaN"
proof (induction ys)
  case Nil
  then show ?case by simp
next
  case (Cons y ys)
  then show ?case by (simp add: bfill_Cons del: bfill.simps)
qed

lemma bfill_last_NaN:
  assumes "xs \<noteq> []" and "last xs = NaN"
  shows "bfill xs ! (length xs - 1) = NaN"
proof -
  from assms have "xs = butlast xs @ [NaN]"
    by (metis append_butlast_last_id)
  then have "bfill xs ! length (butlast xs) = NaN"
    using bfill_snoc_NaN [of "butlast xs"] by simp
  then show ?thesis by simp
qed

lemma length_rolling [simp]: "length (rolling w f xs) = length xs"
  by (simp add: rolling_def)

lemma rolling_nth:
  "i < length xs \<Longrightarrow> rolling w f xs ! i =
     (if Suc i < w then NaN
      else case finite_vals (window w i xs) of None \<Rightarrow> NaN | Some vs \<Rightarrow> Fin (f vs))"
  by (simp add: rolling_def)

lemma length_diff [simp]: "length (diff xs) = length xs"
  by (cases xs) (simp_all add: diff_def)

lemma diff_nth:
  "i < length xs \<Longrightarrow> diff xs ! i = (if i = 0 then NaN else fsub (xs ! i) (xs ! (i - 1)))"
  by (cases xs; cases i) (simp_all add: diff_def)

lemma length_gain [simp]: "length (gain d) = length d"
  by (simp add: gain_def)

lemma length_loss [simp]: "length (loss d) = length d"
  by (simp add: loss_def)

lemma gain_nth: "j < length d \<Longrightarrow> gain d ! j = (if fgt (d ! j) (Fin 0) then d ! j else Fin 0)"
  by (simp add: gain_def)

lemma loss_nth:
  "j < length d \<Longrightarrow> loss d ! j = fneg (if flt (d ! j) (Fin 0) then d ! j else Fin 0)"
  by (simp add: loss_def)

lemma length_avg_gain [simp]: "length (avg_gain xs) = length xs"
  by (simp add: avg_gain_def)

lemma length_avg_loss [simp]: "length (avg_loss xs) = length xs"
  by (simp add: avg_loss_def)

lemma length_rsi_column [simp]: "length (rsi_column xs) = length xs"
  by (simp add: rsi_column_def)

lemma rsi_column_nth:
  "i < length xs \<Longrightarrow> rsi_column xs ! i = rsi_of_rs (fdiv (avg_gain xs ! i) (avg_loss xs ! i))"
  by (simp add: rsi_column_def)

lemma length_sma_column [simp]: "length (sma_column w xs) = length xs"
  by (simp add: sma_column_def)

lemma length_bb_std_column [simp]: "length (bb_std_column xs) = length xs"
  by (simp add: bb_std_column_def)

lemma length_bb_lower_column [simp]: "length (bb_lower_column xs) = length xs"
  by (simp add: bb_lower_column_def)

lemma length_bb_upper_column [simp]: "length (bb_upper_column xs) = length xs"
  by (simp add: bb_upper_column_def)

lemma length_ewm_scan [simp]: "length (ewm_scan \<alpha> s xs) = length xs"
  by (induction xs arbitrary: s) simp_all

lemma length_ewm [simp]: "length (ewm s xs) = length xs"
  by (cases xs) (simp_all add: ewm_def)

lemma length_macd_column [simp]: "length (macd_column xs) = length xs"
  by (simp add: macd_column_def)

lemma length_macd_signal_column [simp]: "length (macd_signal_column xs) = length xs"
  by (simp add: macd_signal_column_def)

lemma length_macd_hist_column [simp]: "length (macd_hist_column xs) = length xs"
  by (simp add: macd_hist_column_def)

lemma length_prepare_features [simp]: "length (prepare_features rows) = length rows"
  by (simp add: prepare_features_def Let_def)

lemma prepare_features_nth:
  "i < length rows \<Longrightarrow> prepare_features rows ! i =
     \<lparr> openTime = bfill (column ''openTime'' rows) ! i,
       close = bfill (column ''close'' rows) ! i,
       rsi = bfill (rsi_column (column ''close'' rows)) ! i,
       sma_20 = bfill (sma_column 20 (column ''close'' rows)) ! i,
       sma_50 = bfill (sma_column 50 (column ''close'' rows)) ! i,
       macd = bfill (macd_column (column ''close'' rows)) ! i,
       macd_signal = bfill (macd_signal_column (column ''close'' rows)) ! i,
       macd_hist = bfill (macd_hist_column (column ''close'' rows)) ! i,
       bb_lower = bfill (bb_lower_column (column ''close'' rows)) ! i,
       bb_upper = bfill (bb_upper_column (column ''close'' rows)) ! i \<rparr>"
  by (simp add: prepare_features_def Let_def)

lemma last_take_Suc: "i < length df \<Longrightarrow> last (take (Suc i) df) = df ! i"
  by (simp add: take_Suc_conv_app_nth)

subsection \<open>Windows of equal values\<close>


lemma finite_vals_replicate_Fin [simp]: "finite_vals (replicate n (Fin c)) = Some (replicate n c)"
  by (induction n) simp_all

lemma window_nth:
  "w \<le> Suc i \<Longrightarrow> Suc i \<le> length xs \<Longrightarrow> window w i xs = map ((!) xs) [Suc i - w..<Suc i]"
  by (rule nth_equalityI) (simp_all add: window_def del: upt_Suc)

lemma mean_replicate: "0 < n \<Longrightarrow> mean (replicate n c) = c"
  by (simp add: mean_def sum_list_replicate)

lemma std_replicate: "std (replicate n c) = 0"
proof (cases "n = 0")
  case True
  then show ?thesis by (simp add: std_def)
next
  case False
  then show ?thesis by (simp add: std_def mean_replicate sum_list_replicate)
qed

lemma ewm_step_flat: "ewm_step \<alpha> (Fin c, 1) (Fin c) = (Fin c, 1)"
  by (simp add: algebra_simps)

lemma ewm_scan_flat:
  "ewm_scan \<alpha> (Fin c, 1) (replicate m (Fin c) @ ys) =
     replicate m (Fin c) @ ewm_scan \<alpha> (Fin c, 1) ys"
  by (induction m) (simp_all add: ewm_step_flat del: ewm_step.simps)

lemma ewm_flat_prefix:
  assumes "take n xs = replicate n (Fin c)" and "i < n" and "n \<le> length xs"
  shows "ewm s xs ! i = Fin c"
proof -
  obtain m where n: "n = Suc m" using assms(2) by (cases n) auto
  have "xs = replicate n (Fin c) @ drop n xs"
    using assms(1) by (metis append_take_drop_id)
  then have xs: "xs = Fin c # (replicate m (Fin c) @ drop n xs)"
    by (simp add: n)
  have "ewm s xs =
      Fin c # (replicate m (Fin c) @ ewm_scan (2 / (real s + 1)) (Fin c, 1) (drop n xs))"
    by (subst xs) (simp add: ewm_def ewm_scan_flat)
  then have "ewm s xs = replicate n (Fin c) @ ewm_scan (2 / (real s + 1)) (Fin c, 1) (drop n xs)"
    by (simp add: n)
  then show ?thesis using assms(2) by (simp add: nth_append)
qed

lemma macd_flat_prefix:
  assumes "take n xs = replicate n (Fin c)" and "n \<le> length xs"
  shows "take n (macd_column xs) = replicate n (Fin 0)"
  using assms
  by (intro nth_equalityI) (simp_all add: macd_column_def ewm_flat_prefix fsub_def)

subsection \<open>The relative strength index at a zero average loss\<close>

lemma rsi_zero_loss:
  assumes "avg_loss xs ! i = Fin 0" and "fgt (avg_gain xs ! i) (Fin 0)"
  shows "rsi_of_rs (fdiv (avg_gain xs ! i) (avg_loss xs ! i)) = Fin 100"
  using assms
  by (cases "avg_gain xs ! i")
     (simp_all add: rsi_of_rs_def fgt_def fsub_def inf_of_sign_def)

lemma avg_rising:
  "avg_loss (map Fin rising) ! 14 = Fin 0" "avg_gain (map Fin rising) ! 14 = Fin 1"
  by (simp_all add: avg_loss_def avg_gain_def rolling_nth rising_def window_def loss_def gain_def
      diff_def fsub_def mean_def fgt_def)

lemma avg_flat15:
  "avg_loss (map Fin flat15) ! 14 = Fin 0" "avg_gain (map Fin flat15) ! 14 = Fin 0"
  by (simp_all add: avg_loss_def avg_gain_def rolling_nth flat15_def window_def loss_def gain_def
      diff_def fsub_def mean_def fgt_def)

text \<open>
  Claim C8, as stated, fails. In a history of fifteen candles with the same close the
  average loss of the last bar is zero and so is the average gain: the quotient is
  \<open>0 / 0\<close>, the RSI column holds NaN on that bar, and the back-fill finds no later
  value, so the prepared row holds NaN as well.
\<close>

theorem rsi_flat_window_counterexample:
  "14 < length (history flat15)
   \<and> avg_loss (column ''close'' (history flat15)) ! 14 = Fin 0
   \<and> rsi_column (column ''close'' (history flat15)) ! 14 = NaN
   \<and> rsi (prepare_features (history flat15) ! 14) = NaN"
proof -
  have len: "length flat15 = 15" by (simp add: flat15_def)
  have raw: "rsi_column (map Fin flat15) ! 14 = NaN"
    by (simp add: rsi_column_nth len avg_flat15 rsi_of_rs_def fsub_def)
  have "rsi_column (map Fin flat15) \<noteq> []"
    using len by (metis length_rsi_column length_map list.size(3) zero_neq_numeral)
  moreover have "last (rsi_column (map Fin flat15)) = NaN"
    using raw len by (simp add: last_conv_nth \<open>rsi_column (map Fin flat15) \<noteq> []\<close>)
  ultimately have "bfill (rsi_column (map Fin flat15)) ! (length (rsi_column (map Fin flat15)) - 1) = NaN"
    by (rule bfill_last_NaN)
  then have "bfill (rsi_column (map Fin flat15)) ! 14 = NaN"
    by (simp add: len)
  then show ?thesis
    using raw by (simp add: len avg_flat15 prepare_features_nth)
qed

text \<open>
  Claim C8, amended. On a bar whose 14-period average loss is zero: when the average
  gain is positive, the RSI of the bar is 100, in the RSI column and in the prepared
  row; when the average gain is zero as well, the RSI column holds NaN on that bar. The
  computation is total: it raises on no history.
\<close>

theorem rsi_zero_average_loss:
  assumes "i < length rows" and "avg_loss (column ''close'' rows) ! i = Fin 0"
  shows "(fgt (avg_gain (column ''close'' rows) ! i) (Fin 0) \<longrightarrow>
           rsi_column (column ''close'' rows) ! i = Fin 100
           \<and> rsi (prepare_features rows ! i) = Fin 100)
       \<and> (avg_gain (column ''close'' rows) ! i = Fin 0 \<longrightarrow>
           rsi_column (column ''close'' rows) ! i = NaN)"
proof -
  have len: "i < length (column ''close'' rows)"
    using assms(1) by (simp add: column_def)
  have raw: "rsi_column (column ''close'' rows) ! i =
      rsi_of_rs (fdiv (avg_gain (column ''close'' rows) ! i) (avg_loss (column ''close'' rows) ! i))"
    using len by (rule rsi_column_nth)
  show ?thesis
  proof (intro conjI impI)
    assume g: "fgt (avg_gain (column ''close'' rows) ! i) (Fin 0)"
    show r: "rsi_column (column ''close'' rows) ! i = Fin 100"
      using raw rsi_zero_loss [OF assms(2) g] by simp
    show "rsi (prepare_features rows ! i) = Fin 100"
      using r len assms(1) by (simp add: prepare_features_nth bfill_nth_defined)
  next
    assume "avg_gain (column ''close'' rows) ! i = Fin 0"
    then show "rsi_column (column ''close'' rows) ! i = NaN"
      using raw assms(2) by (simp add: rsi_of_rs_def fsub_def)
  qed
qed

text \<open>Fifteen rising closes give the RSI 100 on the last bar, fifteen equal closes NaN.\<close>

theorem rsi_zero_average_loss_witness:
  "14 < length (history rising)
   \<and> avg_loss (column ''close'' (history rising)) ! 14 = Fin 0
   \<and> fgt (avg_gain (column ''close'' (history rising)) ! 14) (Fin 0)
   \<and> rsi (prepare_features (history rising) ! 14) = Fin 100
   \<and> avg_loss (column ''close'' (history flat15)) ! 14 = Fin 0
   \<and> avg_gain (column ''close'' (history flat15)) ! 14 = Fin 0
   \<and> rsi_column (column ''close'' (history flat15)) ! 14 = NaN"
proof -
  have a: "14 < length (history rising)" by (simp add: rising_def)
  have b: "avg_loss (column ''close'' (history rising)) ! 14 = Fin 0" by (simp add: avg_rising)
  have c: "14 < length (history flat15)" by (simp add: flat15_def)
  have d: "avg_loss (column ''close'' (history flat15)) ! 14 = Fin 0" by (simp add: avg_flat15)
  show ?thesis
    using rsi_zero_average_loss [OF a b] rsi_zero_average_loss [OF c d] a b d
    by (simp add: avg_rising avg_flat15 fgt_def)
qed

subsection \<open>A history that is flat up to the bar 100\<close>

lemma length_flat_then [simp]: "length (flat_then d) = 102"
  by (simp add: flat_then_def)

lemma flat_then_nth: "j < 101 \<Longrightarrow> flat_then d ! j = 100" "flat_then d ! 101 = d"
  by (simp_all add: flat_then_def nth_append)

lemma take_flat_then: "take 101 (map Fin (flat_then d)) = replicate 101 (Fin 100)"
  by (simp add: flat_then_def)

lemma diff_flat_then:
  "j < 101 \<Longrightarrow> 0 < j \<Longrightarrow> diff (map Fin (flat_then d)) ! j = Fin 0"
  "diff (map Fin (flat_then d)) ! 101 = Fin (d - 100)"
  by (simp_all add: diff_nth flat_then_nth fsub_def)

lemma gain_flat_then:
  "j < 101 \<Longrightarrow> 0 < j \<Longrightarrow> gain (diff (map Fin (flat_then d))) ! j = Fin 0"
  "gain (diff (map Fin (flat_then d))) ! 101 = (if 100 < d then Fin (d - 100) else Fin 0)"
  by (simp_all add: gain_nth diff_flat_then fgt_def)

lemma loss_flat_then:
  "j < 101 \<Longrightarrow> 0 < j \<Longrightarrow> loss (diff (map Fin (flat_then d))) ! j = Fin 0"
  "loss (diff (map Fin (flat_then d))) ! 101 = (if d < 100 then Fin (100 - d) else Fin 0)"
  by (simp_all add: loss_nth diff_flat_then)

lemma avg_gain_flat_then_100: "avg_gain (map Fin (flat_then d)) ! 100 = Fin 0"
  by (simp add: avg_gain_def rolling_nth window_nth gain_flat_then mean_def)

lemma avg_loss_flat_then_100: "avg_loss (map Fin (flat_then d)) ! 100 = Fin 0"
  by (simp add: avg_loss_def rolling_nth window_nth loss_flat_then mean_def)

lemma avg_gain_flat_then_101:
  "avg_gain (map Fin (flat_then d)) ! 101 = (if 100 < d then Fin ((d - 100) / 14) else Fin 0)"
  by (simp add: avg_gain_def rolling_nth window_nth gain_flat_then mean_def)

lemma avg_loss_flat_then_101:
  "avg_loss (map Fin (flat_then d)) ! 101 = (if d < 100 then Fin ((100 - d) / 14) else Fin 0)"
  by (simp add: avg_loss_def rolling_nth window_nth loss_flat_then mean_def)

lemma rsi_column_flat_then_100: "rsi_column (map Fin (flat_then d)) ! 100 = NaN"
  by (simp add: rsi_column_nth avg_gain_flat_then_100 avg_loss_flat_then_100 rsi_of_rs_def
      fsub_def)

lemma rsi_column_flat_then_101:
  "rsi_column (map Fin (flat_then d)) ! 101 =
     (if d < 100 then Fin 0 else if 100 < d then Fin 100 else NaN)"
  by (simp add: rsi_column_nth avg_gain_flat_then_101 avg_loss_flat_then_101 rsi_of_rs_def
      fsub_def inf_of_sign_def)

lemma rsi_flat_then_100:
  assumes "d \<noteq> 100"
  shows "bfill (rsi_column (map Fin (flat_then d))) ! 100 = (if d < 100 then Fin 0 else Fin 100)"
proof -
  have "bfill (rsi_column (map Fin (flat_then d))) ! 100
      = bfill (rsi_column (map Fin (flat_then d))) ! Suc 100"
    by (rule bfill_nth_NaN) (simp_all add: rsi_column_flat_then_100)
  also have "\<dots> = rsi_column (map Fin (flat_then d)) ! 101"
    using assms by (simp add: bfill_nth_defined rsi_column_flat_then_101)
  finally show ?thesis using assms by (simp add: rsi_column_flat_then_101)
qed

lemma sma_flat_then_100:
  assumes "w \<le> 101" and "0 < w"
  shows "sma_column w (map Fin (flat_then d)) ! 100 = Fin 100"
proof -
  have "window w 100 (map Fin (flat_then d)) = replicate w (Fin 100)"
    using assms by (intro nth_equalityI) (simp_all add: window_def flat_then_nth)
  then show ?thesis using assms by (simp add: sma_column_def rolling_nth mean_replicate)
qed

lemma bb_std_flat_then_100: "bb_std_column (map Fin (flat_then d)) ! 100 = Fin 0"
proof -
  have "window 20 100 (map Fin (flat_then d)) = replicate 20 (Fin 100)"
    by (intro nth_equalityI) (simp_all add: window_def flat_then_nth)
  then show ?thesis by (simp add: bb_std_column_def rolling_nth std_replicate)
qed

lemma bb_flat_then_100:
  "bb_lower_column (map Fin (flat_then d)) ! 100 = Fin 100"
  "bb_upper_column (map Fin (flat_then d)) ! 100 = Fin 100"
  by (simp_all add: bb_lower_column_def bb_upper_column_def sma_flat_then_100
      bb_std_flat_then_100 fsub_def)

lemma macd_flat_then_100:
  "macd_column (map Fin (flat_then d)) ! 100 = Fin 0"
  "macd_signal_column (map Fin (flat_then d)) ! 100 = Fin 0"
  "macd_hist_column (map Fin (flat_then d)) ! 100 = Fin 0"
proof -
  have t: "take 101 (macd_column (map Fin (flat_then d))) = replicate 101 (Fin 0)"
    by (rule macd_flat_prefix) (simp_all add: take_flat_then)
  have "take 101 (macd_column (map Fin (flat_then d))) ! 100 = Fin 0"
    by (simp only: t) simp
  then show m: "macd_column (map Fin (flat_then d)) ! 100 = Fin 0" by simp
  show s: "macd_signal_column (map Fin (flat_then d)) ! 100 = Fin 0"
    unfolding macd_signal_column_def by (rule ewm_flat_prefix [OF t]) simp_all
  show "macd_hist_column (map Fin (flat_then d)) ! 100 = Fin 0"
    using m s by (simp add: macd_hist_column_def fsub_def)
qed

lemma signal_flat_then_100:
  assumes "d \<noteq> 100"
  shows "generate_signal (prepare_features (history (flat_then d)) ! 100)
           = (if d < 100 then BUY else SELL)"
proof -
  have "rsi (prepare_features (history (flat_then d)) ! 100) = (if d < 100 then Fin 0 else Fin 100)"
    using assms by (simp add: prepare_features_nth rsi_flat_then_100)
  moreover have "close (prepare_features (history (flat_then d)) ! 100) = Fin 100"
    by (simp add: prepare_features_nth bfill_nth_defined flat_then_nth)
  moreover have "sma_20 (prepare_features (history (flat_then d)) ! 100) = Fin 100"
    by (simp add: prepare_features_nth bfill_nth_defined sma_flat_then_100)
  moreover have "sma_50 (prepare_features (history (flat_then d)) ! 100) = Fin 100"
    by (simp add: prepare_features_nth bfill_nth_defined sma_flat_then_100)
  moreover have "macd (prepare_features (history (flat_then d)) ! 100) = Fin 0"
    by (simp add: prepare_features_nth bfill_nth_defined macd_flat_then_100)
  moreover have "macd_signal (prepare_features (history (flat_then d)) ! 100) = Fin 0"
    by (simp add: prepare_features_nth bfill_nth_defined macd_flat_then_100)
  moreover have "macd_hist (prepare_features (history (flat_then d)) ! 100) = Fin 0"
    by (simp add: prepare_features_nth bfill_nth_defined macd_flat_then_100)
  moreover have "bb_lower (prepare_features (history (flat_then d)) ! 100) = Fin 100"
    by (simp add: prepare_features_nth bfill_nth_defined bb_flat_then_100)
  moreover have "bb_upper (prepare_features (history (flat_then d)) ! 100) = Fin 100"
    by (simp add: prepare_features_nth bfill_nth_defined bb_flat_then_100)
  ultimately show ?thesis
    by (simp add: generate_signal_def fgt_def)
qed

section \<open>Properties of the simulation driver\<close>

lemma signals_execute_trade [simp]: "signals (execute_trade sd st) = signals st"
  by (simp add: execute_trade_def open_position_def close_position_def Let_def
      split: option.splits)

lemma signals_replay:
  "map sd_signal (signals (replay symbol df bars st)) =
     map sd_signal (signals st) @ map (\<lambda>i. generate_signal (last (take (Suc i) df))) bars"
  by (induction bars arbitrary: st) (simp_all add: bar_step_def Let_def)

lemma length_signals_replay:
  "length (signals (replay symbol df bars st)) = length (signals st) + length bars"
  by (induction bars arbitrary: st) (simp_all add: bar_step_def Let_def)

lemma length_trades_replay: "length (trades st) \<le> length (trades (replay symbol df bars st))"
proof (induction bars arbitrary: st)
  case Nil
  then show ?case by simp
next
  case (Cons i bars)
  have "length (trades st) \<le> length (trades (bar_step symbol (last (take (Suc i) df)) st))"
    by (simp add: bar_step_def execute_trade_def open_position_def close_position_def Let_def
        split: option.splits)
  also have "\<dots> \<le> length (trades (replay symbol df bars
      (bar_step symbol (last (take (Suc i) df)) st)))"
    by (rule Cons.IH)
  finally show ?case by simp
qed

lemma bar_step_opens:
  "position st = None \<Longrightarrow> generate_signal latest = BUY \<Longrightarrow>
   length (trades (bar_step symbol latest st)) = Suc (length (trades st))"
  by (simp add: bar_step_def execute_trade_def open_position_def Let_def)

lemma run_backtest_replay:
  assumes "100 \<le> length hist" and "list_all (has_column hist) required_columns"
  shows "fst (run_backtest hist symbol ib r slp tpp) =
           replay symbol (prepare_features hist) [100..<length hist] (reset_engine ib r slp tpp)"
  using assms by (auto simp: run_backtest_def Let_def)

lemma history_down_ok:
  "100 \<le> length history_down" "list_all (has_column history_down) required_columns"
  by (simp_all add: history_down_def has_column_history flat_then_def)

lemma run_history_down_trades:
  "trades (fst (run_backtest history_down symbol ib r slp tpp)) \<noteq> []"
proof -
  let ?df = "prepare_features history_down"
  let ?st0 = "reset_engine ib r slp tpp"
  have run: "fst (run_backtest history_down symbol ib r slp tpp)
      = replay symbol ?df [100..<length history_down] ?st0"
    by (rule run_backtest_replay) (rule history_down_ok)+
  have len: "length history_down = 102"
    by (simp add: history_down_def)
  have bars: "[100..<102] = [100, 101]"
    by (simp add: upt_rec)
  have row: "last (take (Suc 100) ?df) = ?df ! 100"
    by (rule last_take_Suc) (simp add: len)
  have buy: "generate_signal (?df ! 100) = BUY"
    using signal_flat_then_100 [of 99] by (simp add: history_down_def)
  have one: "length (trades (bar_step symbol (last (take (Suc 100) ?df)) ?st0)) = Suc 0"
    using bar_step_opens [of ?st0 "?df ! 100" symbol] buy row
    by (simp add: reset_engine_def)
  have "Suc 0 \<le> length (trades (replay symbol ?df [101]
      (bar_step symbol (last (take (Suc 100) ?df)) ?st0)))"
    using length_trades_replay [of "bar_step symbol (last (take (Suc 100) ?df)) ?st0"
        symbol ?df "[101]"] one by simp
  then show ?thesis
    by (simp only: run len bars replay.simps) auto
qed

subsection \<open>Look-ahead\<close>

text \<open>
  Claim C2 fails on the code. The two histories below have 102 candles and are equal on
  the bars 0 to 100: the close is 100 on each of these bars, and on the bar 101 it is 99
  in one history and 101 in the other. The first signal of a run is the signal of the bar
  100; it is BUY in the first run and SELL in the second. On the flat window the RSI of
  the bar 100 is \<open>0 / 0\<close>, and the back-fill of \<open>_prepare_features\<close> replaces it by the
  RSI of the bar 101, which is 0 after a fall and 100 after a rise.
\<close>

theorem signal_depends_on_later_candle:
  "take 101 history_down = take 101 history_up
   \<and> map sd_signal (signals (fst (run_backtest history_down ''BTCUSDT'' 10000 0.02 0.02 0.04))) ! 0
       = BUY
   \<and> map sd_signal (signals (fst (run_backtest history_up ''BTCUSDT'' 10000 0.02 0.02 0.04))) ! 0
       = SELL"
proof -
  have same: "take 101 history_down = take 101 history_up"
    by (rule nth_equalityI)
       (simp_all add: history_down_def history_up_def history_def flat_then_nth)
  have run: "map sd_signal (signals (fst
        (run_backtest (history (flat_then d)) ''BTCUSDT'' 10000 0.02 0.02 0.04))) ! 0
        = (if d < 100 then BUY else SELL)" if d: "d \<noteq> 100" for d :: real
  proof -
    have cols: "list_all (has_column (history (flat_then d))) required_columns"
      by (rule has_column_history) (simp add: flat_then_def)
    have "last (take 101 (prepare_features (history (flat_then d))))
        = prepare_features (history (flat_then d)) ! 100"
      using last_take_Suc [of 100 "prepare_features (history (flat_then d))"] by simp
    then show ?thesis
      using signal_flat_then_100 [OF d]
      by (simp add: run_backtest_replay [OF _ cols] signals_replay reset_engine_def
          del: replay.simps)
  qed
  show ?thesis
    using same run [of 99] run [of 101] by (simp add: history_down_def history_up_def)
qed

subsection \<open>Insufficient data\<close>

text \<open>
  Claim C6. A history of fewer than 100 candles is rejected with the error of insufficient
  data, and a history of at least 100 candles that lacks a required column with the error
  of missing columns. In both cases the engine is left as the reset at the start of the
  run made it, with an empty trade log and an empty signal log, and the result is the
  error message alone: no replay ran and no report exists.
\<close>

theorem insufficient_data:
  "(length hist < 100 \<longrightarrow>
      run_backtest hist symbol ib r slp tpp =
        (reset_engine ib r slp tpp, Inl ''Insufficient historical data for backtesting''))
   \<and> (100 \<le> length hist \<and> \<not> list_all (has_column hist) required_columns \<longrightarrow>
      run_backtest hist symbol ib r slp tpp =
        (reset_engine ib r slp tpp, Inl ''Historical data missing required columns''))
   \<and> trades (reset_engine ib r slp tpp) = []
   \<and> signals (reset_engine ib r slp tpp) = []"
  by (auto simp: run_backtest_def Let_def reset_engine_def)

text \<open>A history of 99 candles, and 100 candles that have a time and a close only.\<close>

theorem insufficient_data_witness:
  "length (history (replicate 99 100)) < 100
   \<and> snd (run_backtest (history (replicate 99 100)) ''BTCUSDT'' 10000 0.02 0.02 0.04)
       = Inl ''Insufficient historical data for backtesting''
   \<and> 100 \<le> length (replicate 100 bare_candle)
   \<and> \<not> list_all (has_column (replicate 100 bare_candle)) required_columns
   \<and> snd (run_backtest (replicate 100 bare_candle) ''BTCUSDT'' 10000 0.02 0.02 0.04)
       = Inl ''Historical data missing required columns''"
proof -
  have a: "length (history (replicate 99 100)) < 100" by simp
  have b: "\<not> list_all (has_column (replicate 100 bare_candle)) required_columns"
    by (simp add: required_columns_def has_column_def list_ex_iff bare_candle_def)
  show ?thesis
    using insufficient_data [of "history (replicate 99 100)" "''BTCUSDT''" 10000 "0.02" "0.02" "0.04"]
          insufficient_data [of "replicate 100 bare_candle" "''BTCUSDT''" 10000 "0.02" "0.02" "0.04"]
          a b
    by simp
qed

subsection \<open>Parameters\<close>

text \<open>
  Claim C7, as stated, fails. A run with the initial balance \<open>- 100\<close> and the risk
  fraction 2 on a history of 102 candles is not rejected: it returns a report, logs a
  signal for each of the bars 100 and 101, and opens a position.
\<close>

theorem invalid_parameters_accepted:
  "\<not> isl (snd (run_backtest history_down ''BTCUSDT'' (- 100) 2 0.02 0.04))
   \<and> length (signals (fst (run_backtest history_down ''BTCUSDT'' (- 100) 2 0.02 0.04))) = 2
   \<and> trades (fst (run_backtest history_down ''BTCUSDT'' (- 100) 2 0.02 0.04)) \<noteq> []"
proof -
  have run: "fst (run_backtest history_down ''BTCUSDT'' (- 100) 2 0.02 0.04)
      = replay ''BTCUSDT'' (prepare_features history_down) [100..<length history_down]
          (reset_engine (- 100) 2 0.02 0.04)"
    by (rule run_backtest_replay) (rule history_down_ok)+
  have len: "length history_down = 102"
    by (simp add: history_down_def)
  have s: "length (signals (fst (run_backtest history_down ''BTCUSDT'' (- 100) 2 0.02 0.04))) = 2"
    by (simp only: run length_signals_replay) (simp add: len reset_engine_def)
  have "\<not> isl (snd (run_backtest history_down ''BTCUSDT'' (- 100) 2 0.02 0.04))"
    using history_down_ok by (auto simp: run_backtest_def Let_def)
  with s run_history_down_trades [of "''BTCUSDT''" "- 100" 2 "0.02" "0.04"] show ?thesis
    by simp
qed

text \<open>
  Claim C7, amended. \<open>run_backtest\<close> validates no parameter. For every initial balance
  other than zero, negative ones included, and for every risk fraction, stop-loss
  fraction and take-profit fraction, a history of at least 100 candles with the required
  columns is replayed: the run returns a report with the trade log and a signal log of
  one entry for each bar from the index 100 on.
\<close>

theorem no_parameter_validation:
  assumes "100 \<le> length hist" and "list_all (has_column hist) required_columns" and "ib \<noteq> 0"
  shows "\<exists>rep. snd (run_backtest hist symbol ib r slp tpp) = Inr rep
           \<and> r_initial_balance rep = ib
           \<and> length (r_signals rep) = length hist - 100
           \<and> r_trades rep = trades (fst (run_backtest hist symbol ib r slp tpp))
           \<and> r_signals rep = signals (fst (run_backtest hist symbol ib r slp tpp))"
  using assms by (auto simp: run_backtest_def Let_def length_signals_replay reset_engine_def)

theorem no_parameter_validation_witness:
  "100 \<le> length history_down \<and> list_all (has_column history_down) required_columns
   \<and> (- 100 :: real) \<noteq> 0
   \<and> (\<exists>rep. snd (run_backtest history_down ''BTCUSDT'' (- 100) 2 0.02 0.04) = Inr rep
         \<and> r_initial_balance rep = - 100 \<and> length (r_signals rep) = 2)"
proof -
  have len: "length history_down = 102"
    by (simp add: history_down_def)
  show ?thesis
    using no_parameter_validation [OF history_down_ok, of "- 100" "''BTCUSDT''" 2 "0.02" "0.04"]
          history_down_ok
    by (auto simp: len)
qed

section \<open>Properties of the trade log\<close>

subsection \<open>Invariants of the replay\<close>

lemma fadd_zero [simp]: "fadd x (Fin 0) = x"
  by (cases x) simp_all














subsection \<open>The trade log of a run\<close>




subsection \<open>A run with a close of zero\<close>

lemma length_zero_dip [simp]: "length zero_dip = 102"
  by (simp add: zero_dip_def)










section \<open>Properties of the realised-profit matching\<close>

lemma match_sell_Nil: "match_sell p ts q [] acc hts = ([], acc, hts)"
  by (subst match_sell.simps) simp

lemma match_sell_done: "q \<le> 0 \<Longrightarrow> match_sell p ts q queue acc hts = (queue, acc, hts)"
  by (subst match_sell.simps) simp

lemma match_sell_Cons:
  "0 < q \<Longrightarrow> match_sell p ts q (b # bs) acc hts =
     (if q < lot_size b
      then match_sell p ts 0 (b\<lparr> lot_size := lot_size b - q \<rparr> # bs)
             (acc + (p - lot_price b) * q) (hts @ [ts - lot_ts b])
      else match_sell p ts (q - lot_size b) bs
             (acc + (p - lot_price b) * lot_size b) (hts @ [ts - lot_ts b]))"
  by (subst match_sell.simps) (auto simp: Let_def min_def)

lemma match_sell_consume:
  "match_sell p ts q queue acc hts =
     (consume q queue, acc + realised p q queue, hts @ held ts q queue)"
proof (induction queue arbitrary: q acc hts)
  case Nil
  then show ?case by (simp add: match_sell_Nil)
next
  case (Cons b bs)
  show ?case
  proof (cases "0 < q")
    case False
    then show ?thesis by (simp add: match_sell_done)
  next
    case True
    then show ?thesis
      by (simp add: match_sell_Cons Cons.IH match_sell_done)
  qed
qed

lemma consume_excess:
  "\<forall>b \<in> set queue. 0 < lot_size b \<Longrightarrow> sum_list (map lot_size queue) \<le> q \<Longrightarrow>
   consume q queue = [] \<and> realised p q queue = (\<Sum>b\<leftarrow>queue. (p - lot_price b) * lot_size b)"
proof (induction queue arbitrary: q)
  case Nil
  then show ?case by simp
next
  case (Cons b bs)
  have pos: "0 \<le> sum_list (map lot_size bs)"
    using Cons.prems(1) by (intro sum_list_nonneg) (auto intro: less_imp_le)
  have b: "0 < lot_size b" using Cons.prems(1) by simp
  have "lot_size b \<le> q" using Cons.prems(2) pos by simp
  moreover have "sum_list (map lot_size bs) \<le> q - lot_size b" using Cons.prems(2) by simp
  ultimately show ?case
    using Cons.IH [of "q - lot_size b"] Cons.prems(1) b by auto
qed

lemma consume_conserves:
  "\<forall>b \<in> set queue. 0 < lot_size b \<Longrightarrow> 0 \<le> q \<Longrightarrow>
   sum_list (map lot_size (consume q queue)) =
     sum_list (map lot_size queue) - min q (sum_list (map lot_size queue))"
proof (induction queue arbitrary: q)
  case Nil
  then show ?case by simp
next
  case (Cons b bs)
  have pos: "0 \<le> sum_list (map lot_size bs)"
    using Cons.prems(1) by (intro sum_list_nonneg) (auto intro: less_imp_le)
  have b: "0 < lot_size b" using Cons.prems(1) by simp
  show ?case
  proof (cases "q < lot_size b")
    case True
    then show ?thesis using Cons.prems(2) pos b by (auto simp: min_def)
  next
    case False
    then have "sum_list (map lot_size (consume (q - lot_size b) bs)) =
        sum_list (map lot_size bs) - min (q - lot_size b) (sum_list (map lot_size bs))"
      using Cons.prems(1) by (intro Cons.IH) auto
    then show ?thesis using False b by (auto simp: min_def)
  qed
qed

lemma lookup_setdefault [simp]: "lookup (setdefault m k d) k d = lookup m k d"
  by (simp add: lookup_def setdefault_def split: option.splits)

lemma setdefault_upd [simp]: "(setdefault m k d)(k \<mapsto> v) = m(k \<mapsto> v)"
  by (simp add: setdefault_def split: option.splits)

lemma process_trade_sell:
  assumes "upper (f_side t) = ''SELL''"
  shows "positions (process_trade t st) =
           (positions st)(upper (f_symbol t) \<mapsto>
              consume (f_size t) (lookup (positions st) (upper (f_symbol t)) []))"
    and "realised_pnl (process_trade t st) =
           (realised_pnl st)(upper (f_symbol t) \<mapsto>
              lookup (realised_pnl st) (upper (f_symbol t)) 0
              + realised (f_price t) (f_size t) (lookup (positions st) (upper (f_symbol t)) []))"
    and "hold_times (process_trade t st) =
           hold_times st @ held (f_ts t) (f_size t) (lookup (positions st) (upper (f_symbol t)) [])"
  using assms by (simp_all add: process_trade_def Let_def match_sell_consume)

lemma process_trade_buy:
  assumes "upper (f_side t) = ''BUY''"
  shows "positions (process_trade t st) =
           (positions st)(upper (f_symbol t) \<mapsto>
              lookup (positions st) (upper (f_symbol t)) [] @ [lot_of t])"
    and "realised_pnl (process_trade t st) = setdefault (realised_pnl st) (upper (f_symbol t)) 0"
    and "hold_times (process_trade t st) = hold_times st"
  using assms by (simp_all add: process_trade_def Let_def lot_of_def)

lemma two_buys_one_sell:
  assumes "upper (f_side b1) = ''BUY''" and "upper (f_side b2) = ''BUY''"
    and "upper (f_side s1) = ''SELL''"
    and "upper (f_symbol b2) = upper (f_symbol b1)" and "upper (f_symbol s1) = upper (f_symbol b1)"
    and "f_size s1 = f_size b1" and "0 < f_size b1"
  shows "realised_pnl (match_all [b1, b2, s1]) (upper (f_symbol b1))
           = Some ((f_price s1 - f_price b1) * f_size b1)"
    and "hold_times (match_all [b1, b2, s1]) = [f_ts s1 - f_ts b1]"
    and "positions (match_all [b1, b2, s1]) (upper (f_symbol b1)) = Some [lot_of b2]"
proof -
  let ?sym = "upper (f_symbol b1)"
  let ?st0 = "\<lparr> positions = Map.empty, realised_pnl = Map.empty, hold_times = [] \<rparr>"
  let ?st1 = "process_trade b1 ?st0"
  let ?st2 = "process_trade b2 ?st1"
  have all: "match_all [b1, b2, s1] = process_trade s1 ?st2"
    by (simp add: match_all_def)
  have p1: "positions ?st1 ?sym = Some [lot_of b1]"
    and r1: "realised_pnl ?st1 ?sym = Some 0" and h1: "hold_times ?st1 = []"
    by (simp_all add: process_trade_buy [OF assms(1)] lookup_def setdefault_def)
  have p2: "positions ?st2 ?sym = Some [lot_of b1, lot_of b2]"
    and r2: "realised_pnl ?st2 ?sym = Some 0" and h2: "hold_times ?st2 = []"
    using p1 r1 h1
    by (simp_all add: process_trade_buy [OF assms(2)] assms(4) lookup_def setdefault_def)
  have q: "lookup (positions ?st2) ?sym [] = [lot_of b1, lot_of b2]"
    and z: "lookup (realised_pnl ?st2) ?sym 0 = 0"
    using p2 r2 by (simp_all add: lookup_def)
  show "realised_pnl (match_all [b1, b2, s1]) ?sym = Some ((f_price s1 - f_price b1) * f_size b1)"
    using assms(6,7) by (simp add: all process_trade_sell [OF assms(3)] assms(5) q z lot_of_def)
  show "hold_times (match_all [b1, b2, s1]) = [f_ts s1 - f_ts b1]"
    using assms(6,7) h2 by (simp add: all process_trade_sell [OF assms(3)] assms(5) q lot_of_def)
  show "positions (match_all [b1, b2, s1]) ?sym = Some [lot_of b2]"
    using assms(6,7) by (simp add: all process_trade_sell [OF assms(3)] assms(5) q lot_of_def)
qed

lemma upper_demo:
  "upper ''btcusdt'' = ''BTCUSDT''" "upper ''BTCUSDT'' = ''BTCUSDT''"
  "upper ''BtcUsdt'' = ''BTCUSDT''" "upper ''buy'' = ''BUY''" "upper ''BUY'' = ''BUY''"
  "upper ''Sell'' = ''SELL''"
  by code_simp+

text \<open>
  Claim C5. The loop that matches a sell is first in, first out: it returns the buys
  that remain, the profit and the hold times of selling the quantity against the list of
  buys with the oldest first. A sell changes the list and the realised profit of its own
  symbol only, a buy is appended at the end of the list of its symbol. With positive buy
  quantities, a sell of at least the whole unmatched quantity empties the list, realises
  the profit of every buy in it and drops the rest without an error, and in general the
  unmatched quantity falls by the smaller of the sell quantity and the unmatched
  quantity. For two buys and a sell of the size of the first buy, all of one symbol, the
  realised profit is \<open>(s1.price - b1.price) * b1.size\<close>, one hold time is recorded and
  the second buy remains unmatched with its whole quantity.
\<close>

theorem fifo_matching:
  "match_sell p ts q queue acc hts =
     (consume q queue, acc + realised p q queue, hts @ held ts q queue)
   \<and> (upper (f_side t) = ''SELL'' \<longrightarrow>
        positions (process_trade t st) =
          (positions st)(upper (f_symbol t) \<mapsto>
             consume (f_size t) (lookup (positions st) (upper (f_symbol t)) []))
        \<and> realised_pnl (process_trade t st) =
          (realised_pnl st)(upper (f_symbol t) \<mapsto>
             lookup (realised_pnl st) (upper (f_symbol t)) 0
             + realised (f_price t) (f_size t) (lookup (positions st) (upper (f_symbol t)) [])))
   \<and> (upper (f_side t) = ''BUY'' \<longrightarrow>
        positions (process_trade t st) =
          (positions st)(upper (f_symbol t) \<mapsto>
             lookup (positions st) (upper (f_symbol t)) [] @ [lot_of t]))
   \<and> ((\<forall>b \<in> set queue. 0 < lot_size b) \<and> sum_list (map lot_size queue) \<le> q \<longrightarrow>
        consume q queue = []
        \<and> realised p q queue = (\<Sum>b\<leftarrow>queue. (p - lot_price b) * lot_size b))
   \<and> ((\<forall>b \<in> set queue. 0 < lot_size b) \<and> 0 \<le> q \<longrightarrow>
        sum_list (map lot_size (consume q queue)) =
          sum_list (map lot_size queue) - min q (sum_list (map lot_size queue)))
   \<and> (upper (f_side b1) = ''BUY'' \<and> upper (f_side b2) = ''BUY'' \<and> upper (f_side s1) = ''SELL''
        \<and> upper (f_symbol b2) = upper (f_symbol b1) \<and> upper (f_symbol s1) = upper (f_symbol b1)
        \<and> f_size s1 = f_size b1 \<and> 0 < f_size b1 \<longrightarrow>
        fst (calculate_realised_pnl_and_hold_times [b1, b2, s1]) (upper (f_symbol b1))
          = Some ((f_price s1 - f_price b1) * f_size b1)
        \<and> snd (calculate_realised_pnl_and_hold_times [b1, b2, s1]) = [f_ts s1 - f_ts b1]
        \<and> positions (match_all [b1, b2, s1]) (upper (f_symbol b1)) = Some [lot_of b2])"
proof (intro conjI impI)
  show "match_sell p ts q queue acc hts =
      (consume q queue, acc + realised p q queue, hts @ held ts q queue)"
    by (rule match_sell_consume)
qed (simp_all add: process_trade_sell process_trade_buy consume_excess consume_conserves
    two_buys_one_sell calculate_realised_pnl_and_hold_times_def)

text \<open>
  The three fills above: the sell realises \<open>(120 - 100) * 1 = 20\<close> against the first buy
  after 20 time units and leaves the second buy; a sell of 5 against a single buy of 1
  realises the profit of that buy and drops the rest.
\<close>

theorem fifo_matching_witness:
  "match_sell 120 30 5 [lot_of demo_b1] 0 [] = ([], 20, [20])
   \<and> fst (calculate_realised_pnl_and_hold_times [demo_b1, demo_b2, demo_s1]) ''BTCUSDT'' = Some 20
   \<and> snd (calculate_realised_pnl_and_hold_times [demo_b1, demo_b2, demo_s1]) = [20]
   \<and> positions (match_all [demo_b1, demo_b2, demo_s1]) ''BTCUSDT''
       = Some [\<lparr> lot_size = 2, lot_price = 110, lot_ts = 20 \<rparr>]"
  using fifo_matching [of 120 30 5 "[lot_of demo_b1]" 0 "[]" demo_s1
      "process_trade demo_b2 (process_trade demo_b1
         \<lparr> positions = Map.empty, realised_pnl = Map.empty, hold_times = [] \<rparr>)"
      demo_b1 demo_b2 demo_s1]
  by (simp add: demo_b1_def demo_b2_def demo_s1_def upper_demo lot_of_def)

end
